theory Spec2Isabelle
  imports Main "HOL-Library.Word"
begin

section \<open>Python values, text and bytes\<close>

text \<open>
  The module \<^verbatim>\<open>core/encryption.py\<close> works on Python \<^verbatim>\<open>str\<close> and \<^verbatim>\<open>bytes\<close>
  objects. A \<^verbatim>\<open>str\<close> is a sequence of code points (each below \<open>0x110000\<close>, lone
  surrogates included); a \<^verbatim>\<open>bytes\<close> object is a sequence of octets.
\<close>

type_synonym pystr = "nat list"
type_synonym bytes = "8 word list"

definition pystr_ok :: "pystr \<Rightarrow> bool" where
  "pystr_ok s \<longleftrightarrow> list_all (\<lambda>c. c < 0x110000) s"

text \<open>The arguments a caller can pass: the functions are annotated \<^verbatim>\<open>str\<close>
  but Python checks nothing until \<^verbatim>\<open>isinstance\<close> runs.\<close>

datatype pyval =
    PyStr pystr
  | PyInt int
  | PyBool bool
  | PyBytes bytes
  | PyNone
  | PyList "pyval list"

fun isinstance_str :: "pyval \<Rightarrow> bool" where
  "isinstance_str (PyStr _) = True"
| "isinstance_str _ = False"

subsection \<open>Exceptions\<close>

text \<open>
  The exceptions that can leave the module. \<^verbatim>\<open>UnicodeEncodeError\<close> and
  \<^verbatim>\<open>UnicodeDecodeError\<close> are subclasses of \<^verbatim>\<open>ValueError\<close>; they carry the
  offending object, and \<^verbatim>\<open>UnicodeEncodeError\<close> also the range \<open>start..<end\<close> that
  could not be encoded.
\<close>

datatype pyexc =
    ValueError string
  | TypeError string
  | UnicodeEncodeError pystr nat nat
  | UnicodeDecodeError bytes

datatype exc_class = ValueError_cls | TypeError_cls | UnicodeEncodeError_cls | UnicodeDecodeError_cls

fun class_of :: "pyexc \<Rightarrow> exc_class" where
  "class_of (ValueError _) = ValueError_cls"
| "class_of (TypeError _) = TypeError_cls"
| "class_of (UnicodeEncodeError _ _ _) = UnicodeEncodeError_cls"
| "class_of (UnicodeDecodeError _) = UnicodeDecodeError_cls"

text \<open>\<^verbatim>\<open>except ValueError\<close> matches the class and its subclasses.\<close>

fun isinstance_ValueError :: "pyexc \<Rightarrow> bool" where
  "isinstance_ValueError (TypeError _) = False"
| "isinstance_ValueError _ = True"

subsection \<open>The UTF-8 codec behind \<^verbatim>\<open>str.encode()\<close> and \<^verbatim>\<open>bytes.decode()\<close>\<close>

definition is_surrogate :: "nat \<Rightarrow> bool" where
  "is_surrogate c \<longleftrightarrow> 0xD800 \<le> c \<and> c \<le> 0xDFFF"

definition utf8_char :: "nat \<Rightarrow> nat list" where
  "utf8_char c =
     (if c < 0x80 then [c]
      else if c < 0x800 then [0xC0 + c div 64, 0x80 + c mod 64]
      else if c < 0x10000 then [0xE0 + c div 4096, 0x80 + (c div 64) mod 64, 0x80 + c mod 64]
      else [0xF0 + c div 262144, 0x80 + (c div 4096) mod 64, 0x80 + (c div 64) mod 64,
            0x80 + c mod 64])"

fun first_surrogate :: "pystr \<Rightarrow> nat option" where
  "first_surrogate [] = None"
| "first_surrogate (c # cs) =
     (if is_surrogate c then Some 0 else map_option Suc (first_surrogate cs))"

text \<open>\<^verbatim>\<open>s.encode()\<close>: strict UTF-8. The encoder stops at the first surrogate and
  reports the whole run of surrogates that starts there: \<open>Inl (start, end)\<close> stands for
  \<^verbatim>\<open>UnicodeEncodeError\<close> with that range of \<open>s\<close>.\<close>

definition str_encode :: "pystr \<Rightarrow> (nat \<times> nat) + bytes" where
  "str_encode s =
     (case first_surrogate s of
        Some i \<Rightarrow> Inl (i, i + length (takeWhile is_surrogate (drop i s)))
      | None \<Rightarrow> Inr (map of_nat (concat (map utf8_char s))))"

definition is_cont :: "nat \<Rightarrow> bool" where
  "is_cont b \<longleftrightarrow> 0x80 \<le> b \<and> b < 0xC0"

text \<open>Strict UTF-8 decoding of a list of octet values: \<open>None\<close> where Python raises
  \<^verbatim>\<open>UnicodeDecodeError\<close> (stray or missing continuation bytes, overlong forms,
  surrogates, values above \<open>0x10FFFF\<close>).\<close>

fun utf8_decode :: "nat list \<Rightarrow> pystr option" where
  "utf8_decode [] = Some []"
| "utf8_decode (b0 # bs) =
     (if b0 < 0x80 then map_option ((#) b0) (utf8_decode bs)
      else if 0xC0 \<le> b0 \<and> b0 < 0xE0 then
        (case bs of
           b1 # r \<Rightarrow>
             (let c = (b0 - 0xC0) * 64 + (b1 - 0x80)
              in if is_cont b1 \<and> 0x80 \<le> c then map_option ((#) c) (utf8_decode r) else None)
         | _ \<Rightarrow> None)
      else if 0xE0 \<le> b0 \<and> b0 < 0xF0 then
        (case bs of
           b1 # b2 # r \<Rightarrow>
             (let c = (b0 - 0xE0) * 4096 + (b1 - 0x80) * 64 + (b2 - 0x80)
              in if is_cont b1 \<and> is_cont b2 \<and> 0x800 \<le> c \<and> \<not> is_surrogate c
                 then map_option ((#) c) (utf8_decode r) else None)
         | _ \<Rightarrow> None)
      else if 0xF0 \<le> b0 \<and> b0 < 0xF8 then
        (case bs of
           b1 # b2 # b3 # r \<Rightarrow>
             (let c = (b0 - 0xF0) * 262144 + (b1 - 0x80) * 4096 + (b2 - 0x80) * 64 + (b3 - 0x80)
              in if is_cont b1 \<and> is_cont b2 \<and> is_cont b3 \<and> 0x10000 \<le> c \<and> c < 0x110000
                 then map_option ((#) c) (utf8_decode r) else None)
         | _ \<Rightarrow> None)
      else None)"

definition bytes_decode :: "bytes \<Rightarrow> pyexc + pystr" where
  "bytes_decode b =
     (case utf8_decode (map unat b) of
        None \<Rightarrow> Inl (UnicodeDecodeError b)
      | Some s \<Rightarrow> Inr s)"


definition is_ascii :: "bytes \<Rightarrow> bool" where
  "is_ascii b \<longleftrightarrow> list_all (\<lambda>x. x < 0x80) b"

subsection \<open>The text of a \<^verbatim>\<open>UnicodeEncodeError\<close>\<close>

text \<open>
  \<^verbatim>\<open>_get_fernet\<close> interpolates the caught exception into its own message
  (\<^verbatim>\<open>f"... Details: {e}"\<close>), so \<^verbatim>\<open>str(e)\<close> is part of the behaviour. For one bad
  character the interpreter prints its escape and position, for a longer run the
  positions of the run.
\<close>

definition hex_digit :: "nat \<Rightarrow> char" where
  "hex_digit d = ''0123456789abcdef'' ! (d mod 16)"

definition hex_width :: "nat \<Rightarrow> nat \<Rightarrow> string" where
  "hex_width w n = map (\<lambda>i. hex_digit (n div 16 ^ (w - 1 - i))) [0..<w]"

fun dec_str :: "nat \<Rightarrow> string" where
  "dec_str n = (if n < 10 then [hex_digit n] else dec_str (n div 10) @ [hex_digit (n mod 10)])"

definition UnicodeEncodeError_str :: "pystr \<Rightarrow> nat \<Rightarrow> nat \<Rightarrow> string" where
  "UnicodeEncodeError_str obj start end =
     (if start < length obj \<and> end = start + 1 then
        (let badchar = obj ! start;
             esc = (if badchar \<le> 0xff then CHR ''x'' # hex_width 2 badchar
                    else if badchar \<le> 0xffff then CHR ''u'' # hex_width 4 badchar
                    else CHR ''U'' # hex_width 8 badchar)
         in [CHR 0x27] @ ''utf-8'' @ [CHR 0x27] @ '' codec can'' @ [CHR 0x27] @ ''t encode character ''
            @ [CHR 0x27, CHR 0x5C] @ esc @ [CHR 0x27]
            @ '' in position '' @ dec_str start @ '': surrogates not allowed'')
      else [CHR 0x27] @ ''utf-8'' @ [CHR 0x27] @ '' codec can'' @ [CHR 0x27]
           @ ''t encode characters in position ''
           @ dec_str start @ ''-'' @ dec_str (end - 1) @ '': surrogates not allowed'')"

section \<open>The Fernet library as a parameter\<close>

text \<open>
  \<^verbatim>\<open>cryptography.fernet\<close> is not part of the repository. The module uses three of its
  operations, which are taken as a parameter here:
  \<^item> \<open>Fernet key\<close>, the constructor, which returns an instance or raises
    \<^verbatim>\<open>ValueError\<close> or \<^verbatim>\<open>TypeError\<close> with a message;
  \<^item> \<open>fernet_encrypt f rnd data\<close>, which returns a token; \<open>rnd\<close> stands for what the
    call reads from the clock and the random generator;
  \<^item> \<open>fernet_decrypt f token\<close>, which returns the data or raises \<^verbatim>\<open>InvalidToken\<close>
    (\<open>None\<close>).
\<close>

datatype key_error = KeyValueError string | KeyTypeError string

fun key_error_str :: "key_error \<Rightarrow> string" where
  "key_error_str (KeyValueError m) = m"
| "key_error_str (KeyTypeError m) = m"

type_synonym entropy = bytes

record 'f fernet_lib =
  Fernet :: "bytes \<Rightarrow> key_error + 'f"
  fernet_encrypt :: "'f \<Rightarrow> entropy \<Rightarrow> bytes \<Rightarrow> bytes"
  fernet_decrypt :: "'f \<Rightarrow> bytes \<Rightarrow> bytes option"

section \<open>The module \<^verbatim>\<open>core/encryption.py\<close>\<close>

text \<open>
  The state the module reads and writes: the environment variable
  \<^verbatim>\<open>APP_MASTER_KEY\<close> (\<open>None\<close> when unset), the module-level cache
  \<^verbatim>\<open>_fernet_instance\<close>, and a log of the calls made to the operating system and to
  the library, in order.
\<close>

datatype 'f event =
    Getenv
  | FernetNew bytes
  | FernetEncrypt 'f bytes
  | FernetDecrypt 'f bytes

record 'f state =
  environ :: "pystr option"
  fernet_instance :: "'f option"
  trace :: "'f event list"

definition initial_state :: "pystr option \<Rightarrow> 'f state" where
  "initial_state env = \<lparr>environ = env, fernet_instance = None, trace = []\<rparr>"

definition log :: "'f event \<Rightarrow> 'f state \<Rightarrow> 'f state" where
  "log ev st = st\<lparr>trace := trace st @ [ev]\<rparr>"

text \<open>The four errors of the specification, as the module raises them.\<close>

definition MissingMasterKey :: pyexc where
  "MissingMasterKey =
     ValueError ''APP_MASTER_KEY environment variable not set. Cannot perform encryption/decryption.''"

definition InvalidMasterKey :: "string \<Rightarrow> pyexc" where
  "InvalidMasterKey details =
     ValueError (''Invalid APP_MASTER_KEY. It must be a 32-byte URL-safe base64-encoded key. Details: ''
                 @ details)"

definition TamperedOrInvalidToken :: pyexc where
  "TamperedOrInvalidToken =
     ValueError ''Cannot decrypt data: The token is invalid or has been tampered with.''"

definition InvalidInputKind_encrypt :: pyexc where
  "InvalidInputKind_encrypt = TypeError ''Data to encrypt must be a string.''"

definition InvalidInputKind_decrypt :: pyexc where
  "InvalidInputKind_decrypt = TypeError ''Data to decrypt must be a string.''"

text \<open>\<^verbatim>\<open>_get_fernet\<close>. \<^verbatim>\<open>not master_key\<close> holds for an unset variable and for the
  empty string. The cache is assigned only when the constructor returns.\<close>

definition get_fernet :: "'f fernet_lib \<Rightarrow> 'f state \<Rightarrow> (pyexc + 'f) \<times> 'f state" where
  "get_fernet L st =
     (case fernet_instance st of
        Some f \<Rightarrow> (Inr f, st)
      | None \<Rightarrow>
          (let st1 = log Getenv st in
           case environ st of
             None \<Rightarrow> (Inl MissingMasterKey, st1)
           | Some master_key \<Rightarrow>
               if master_key = [] then (Inl MissingMasterKey, st1)
               else
                 (case str_encode master_key of
                    Inl (i, j) \<Rightarrow>
                      (Inl (InvalidMasterKey (UnicodeEncodeError_str master_key i j)), st1)
                  | Inr key \<Rightarrow>
                      (let st2 = log (FernetNew key) st1 in
                       case Fernet L key of
                         Inl e \<Rightarrow> (Inl (InvalidMasterKey (key_error_str e)), st2)
                       | Inr f \<Rightarrow> (Inr f, st2\<lparr>fernet_instance := Some f\<rparr>)))))"

fun the_str :: "pyval \<Rightarrow> pystr" where
  "the_str (PyStr s) = s"
| "the_str _ = []"

text \<open>\<^verbatim>\<open>encrypt\<close>: the type check, then the instance, then
  \<^verbatim>\<open>fernet.encrypt(data.encode()).decode()\<close>.\<close>

definition encrypt :: "'f fernet_lib \<Rightarrow> entropy \<Rightarrow> pyval \<Rightarrow> 'f state \<Rightarrow> (pyexc + pystr) \<times> 'f state" where
  "encrypt L rnd data st =
     (if \<not> isinstance_str data then (Inl InvalidInputKind_encrypt, st)
      else
        (case get_fernet L st of
           (Inl e, st1) \<Rightarrow> (Inl e, st1)
         | (Inr fernet, st1) \<Rightarrow>
             (case str_encode (the_str data) of
                Inl (i, j) \<Rightarrow> (Inl (UnicodeEncodeError (the_str data) i j), st1)
              | Inr b \<Rightarrow>
                  (let st2 = log (FernetEncrypt fernet b) st1
                   in (bytes_decode (fernet_encrypt L fernet rnd b), st2)))))"

text \<open>\<^verbatim>\<open>decrypt\<close>: only \<^verbatim>\<open>InvalidToken\<close> is caught and replaced; an error of
  \<^verbatim>\<open>.encode()\<close> or \<^verbatim>\<open>.decode()\<close> passes through.\<close>

definition decrypt :: "'f fernet_lib \<Rightarrow> pyval \<Rightarrow> 'f state \<Rightarrow> (pyexc + pystr) \<times> 'f state" where
  "decrypt L encrypted_data st =
     (if \<not> isinstance_str encrypted_data then (Inl InvalidInputKind_decrypt, st)
      else
        (case get_fernet L st of
           (Inl e, st1) \<Rightarrow> (Inl e, st1)
         | (Inr fernet, st1) \<Rightarrow>
             (case str_encode (the_str encrypted_data) of
                Inl (i, j) \<Rightarrow> (Inl (UnicodeEncodeError (the_str encrypted_data) i j), st1)
              | Inr b \<Rightarrow>
                  (let st2 = log (FernetDecrypt fernet b) st1
                   in case fernet_decrypt L fernet b of
                        None \<Rightarrow> (Inl TamperedOrInvalidToken, st2)
                      | Some p \<Rightarrow> (bytes_decode p, st2)))))"


section \<open>Sequences of calls\<close>

text \<open>What a process does with the module over its lifetime: calls of \<^verbatim>\<open>encrypt\<close>
  and \<^verbatim>\<open>decrypt\<close>, and changes of the environment variable made between them (as
  the tests of the repository do through \<^verbatim>\<open>os.environ\<close>).\<close>

datatype call =
    Encrypt entropy pyval
  | Decrypt pyval
  | Setenv "pystr option"

fun exec :: "'f fernet_lib \<Rightarrow> call \<Rightarrow> 'f state \<Rightarrow> 'f state" where
  "exec L (Encrypt rnd v) st = snd (encrypt L rnd v st)"
| "exec L (Decrypt v) st = snd (decrypt L v st)"
| "exec L (Setenv e) st = st\<lparr>environ := e\<rparr>"

fun run :: "'f fernet_lib \<Rightarrow> call list \<Rightarrow> 'f state \<Rightarrow> 'f state" where
  "run L [] st = st"
| "run L (c # cs) st = run L cs (exec L c st)"


text \<open>The constructor calls of a log that returned an instance.\<close>

fun constructed :: "'f fernet_lib \<Rightarrow> 'f event \<Rightarrow> bool" where
  "constructed L (FernetNew key) = (case Fernet L key of Inl _ \<Rightarrow> False | Inr _ \<Rightarrow> True)"
| "constructed L _ = False"

definition constructions :: "'f fernet_lib \<Rightarrow> 'f event list \<Rightarrow> nat" where
  "constructions L tr = length (filter (constructed L) tr)"

text \<open>A result that is one of the two key errors of \<^verbatim>\<open>_get_fernet\<close>.\<close>

definition invalid_key_prefix :: string where
  "invalid_key_prefix =
     ''Invalid APP_MASTER_KEY. It must be a 32-byte URL-safe base64-encoded key. Details: ''"

fun key_failure :: "pyexc + pystr \<Rightarrow> bool" where
  "key_failure (Inl (ValueError m)) =
     (ValueError m = MissingMasterKey \<or> take (length invalid_key_prefix) m = invalid_key_prefix)"
| "key_failure _ = False"

text \<open>The master key is usable in a state: an instance is cached, or none is and
  the environment holds a non-empty key that the constructor accepts.\<close>

definition key_ready :: "'f fernet_lib \<Rightarrow> 'f state \<Rightarrow> 'f \<Rightarrow> bool" where
  "key_ready L st f =
     (case fernet_instance st of
        Some g \<Rightarrow> g = f
      | None \<Rightarrow>
          (case environ st of
             None \<Rightarrow> False
           | Some k \<Rightarrow> k \<noteq> [] \<and>
               (case str_encode k of Inl _ \<Rightarrow> False | Inr kb \<Rightarrow> Fernet L kb = Inr f)))"

section \<open>A small instance of the library interface\<close>

text \<open>
  For evaluating the module on concrete inputs: a key is accepted by its length and
  reduced to one byte, a token is the letters-only encoding of a nonce byte, the data and
  a checksum byte over key, nonce and data. It has the shape of the interface only; no
  general statement below depends on it.
\<close>

definition letters :: "bytes \<Rightarrow> bytes" where
  "letters bs = concat (map (\<lambda>b. [of_nat (65 + unat b div 16), of_nat (65 + unat b mod 16)]) bs)"

definition is_letter :: "8 word \<Rightarrow> bool" where
  "is_letter x \<longleftrightarrow> 65 \<le> unat x \<and> unat x < 81"

fun unletters :: "bytes \<Rightarrow> bytes option" where
  "unletters [] = Some []"
| "unletters [x] = None"
| "unletters (h # l # r) =
     (if is_letter h \<and> is_letter l
      then map_option ((#) (of_nat ((unat h - 65) * 16 + (unat l - 65)))) (unletters r)
      else None)"

definition toy_new :: "bytes \<Rightarrow> key_error + 8 word" where
  "toy_new key =
     (if length key = 44 then Inr (sum_list key)
      else Inl (KeyValueError ''Fernet key must be 32 url-safe base64-encoded bytes.''))"

definition toy_encrypt :: "8 word \<Rightarrow> entropy \<Rightarrow> bytes \<Rightarrow> bytes" where
  "toy_encrypt f rnd data =
     (let nonce = (case rnd of [] \<Rightarrow> 0 | x # _ \<Rightarrow> x)
      in letters (nonce # data @ [f + sum_list (nonce # data)]))"

definition toy_decrypt :: "8 word \<Rightarrow> bytes \<Rightarrow> bytes option" where
  "toy_decrypt f token =
     (case unletters token of
        None \<Rightarrow> None
      | Some [] \<Rightarrow> None
      | Some [_] \<Rightarrow> None
      | Some (nonce # rest) \<Rightarrow>
          (if last rest = f + sum_list (nonce # butlast rest) then Some (butlast rest) else None))"

definition toy_lib :: "8 word fernet_lib" where
  "toy_lib = \<lparr>Fernet = toy_new, fernet_encrypt = toy_encrypt, fernet_decrypt = toy_decrypt\<rparr>"

text \<open>A key of the right shape: 43 times \<^verbatim>\<open>A\<close> and the padding \<^verbatim>\<open>=\<close>; and the
  state of a process that was started with it and has encrypted \<^verbatim>\<open>"hi"\<close>.\<close>

definition test_key :: pystr where
  "test_key = replicate 43 65 @ [61]"

definition test_key_bytes :: bytes where
  "test_key_bytes = replicate 43 65 @ [61]"

definition keyed_state :: "8 word state" where
  "keyed_state =
     \<lparr>environ = Some test_key, fernet_instance = Some 40,
      trace = [Getenv, FernetNew test_key_bytes, FernetEncrypt 40 [0x68, 0x69]]\<rparr>"


section \<open>The codec: encoding then decoding gives the text back\<close>

lemma split3: "(c::nat) div 4096 * 4096 + (c div 64) mod 64 * 64 + c mod 64 = c"
proof -
  have 1: "c div 4096 = c div 64 div 64" by (simp add: div_mult2_eq)
  have 2: "c div 64 div 64 * 64 + (c div 64) mod 64 = c div 64" by simp
  have 3: "c div 64 * 64 + c mod 64 = c" by simp
  have "c div 4096 * 4096 = c div 64 div 64 * 64 * 64" using 1 by simp
  then show ?thesis using 2 3
    by (metis add_mult_distrib)
qed

lemma split4: "(c::nat) div 262144 * 262144 + (c div 4096) mod 64 * 4096 + (c div 64) mod 64 * 64 + c mod 64 = c"
proof -
  have 1: "c div 262144 = c div 4096 div 64" by (simp add: div_mult2_eq)
  have 2: "c div 4096 div 64 * 64 + (c div 4096) mod 64 = c div 4096" by simp
  have "c div 262144 * 262144 = c div 4096 div 64 * 64 * 4096" using 1 by simp
  then have "c div 262144 * 262144 + (c div 4096) mod 64 * 4096 = c div 4096 * 4096"
    using 2 by (metis add_mult_distrib)
  then show ?thesis using split3[of c] by simp
qed

lemma utf8_decode_2:
  "2 \<le> q \<Longrightarrow> q < 32 \<Longrightarrow> m < 64 \<Longrightarrow>
   utf8_decode ((0xC0 + q) # (0x80 + m) # r) = map_option ((#) (q * 64 + m)) (utf8_decode r)"
  by (simp add: is_cont_def Let_def)

lemma utf8_decode_3:
  "q < 16 \<Longrightarrow> m < 64 \<Longrightarrow> n < 64 \<Longrightarrow> 0x800 \<le> q * 4096 + m * 64 + n \<Longrightarrow>
   \<not> is_surrogate (q * 4096 + m * 64 + n) \<Longrightarrow>
   utf8_decode ((0xE0 + q) # (0x80 + m) # (0x80 + n) # r) =
   map_option ((#) (q * 4096 + m * 64 + n)) (utf8_decode r)"
  by (simp add: is_cont_def Let_def)

lemma utf8_decode_4:
  "q < 8 \<Longrightarrow> m < 64 \<Longrightarrow> n < 64 \<Longrightarrow> k < 64 \<Longrightarrow>
   0x10000 \<le> q * 262144 + m * 4096 + n * 64 + k \<Longrightarrow>
   q * 262144 + m * 4096 + n * 64 + k < 0x110000 \<Longrightarrow>
   utf8_decode ((0xF0 + q) # (0x80 + m) # (0x80 + n) # (0x80 + k) # r) =
   map_option ((#) (q * 262144 + m * 4096 + n * 64 + k)) (utf8_decode r)"
  by (simp add: is_cont_def Let_def)

lemma utf8_decode_char:
  assumes "\<not> is_surrogate c" "c < 0x110000"
  shows "utf8_decode (utf8_char c @ r) = map_option ((#) c) (utf8_decode r)"
proof -
  consider "c < 0x80" | "0x80 \<le> c" "c < 0x800" | "0x800 \<le> c" "c < 0x10000" | "0x10000 \<le> c"
    by linarith
  then show ?thesis
  proof cases
    case 1 then show ?thesis by (simp add: utf8_char_def)
  next
    case 2
    have a: "2 \<le> c div 64" "c div 64 < 32" "c mod 64 < 64"
      using 2 by (simp_all add: div_less_iff_less_mult less_eq_div_iff_mult_less_eq)
    have b: "c div 64 * 64 + c mod 64 = c" by simp
    have "utf8_char c = [0xC0 + c div 64, 0x80 + c mod 64]" using 2 by (simp add: utf8_char_def)
    then show ?thesis using utf8_decode_2[OF a, of r] by (simp only: b append.simps)
  next
    case 3
    have a: "c div 4096 < 16" "(c div 64) mod 64 < 64" "c mod 64 < 64"
      using 3 by (simp_all add: div_less_iff_less_mult)
    note b = split3[of c]
    have u: "utf8_char c = [0xE0 + c div 4096, 0x80 + (c div 64) mod 64, 0x80 + c mod 64]"
      using 3 by (simp add: utf8_char_def)
    have "utf8_decode ((0xE0 + c div 4096) # (0x80 + (c div 64) mod 64) # (0x80 + c mod 64) # r) =
          map_option ((#) (c div 4096 * 4096 + (c div 64) mod 64 * 64 + c mod 64)) (utf8_decode r)"
    proof (rule utf8_decode_3[OF a])
      show "0x800 \<le> c div 4096 * 4096 + (c div 64) mod 64 * 64 + c mod 64"
        unfolding b by (rule 3(1))
      show "\<not> is_surrogate (c div 4096 * 4096 + (c div 64) mod 64 * 64 + c mod 64)"
        unfolding b by (rule assms(1))
    qed
    then show ?thesis by (simp only: u b append.simps)
  next
    case 4
    have a: "c div 262144 < 8" "(c div 4096) mod 64 < 64" "(c div 64) mod 64 < 64" "c mod 64 < 64"
      using assms by (simp_all add: div_less_iff_less_mult)
    note b = split4[of c]
    have u: "utf8_char c = [0xF0 + c div 262144, 0x80 + (c div 4096) mod 64, 0x80 + (c div 64) mod 64,
            0x80 + c mod 64]"
      using 4 by (simp add: utf8_char_def)
    have "utf8_decode ((0xF0 + c div 262144) # (0x80 + (c div 4096) mod 64) #
            (0x80 + (c div 64) mod 64) # (0x80 + c mod 64) # r) =
          map_option ((#) (c div 262144 * 262144 + (c div 4096) mod 64 * 4096 +
            (c div 64) mod 64 * 64 + c mod 64)) (utf8_decode r)"
    proof (rule utf8_decode_4[OF a])
      show "0x10000 \<le> c div 262144 * 262144 + (c div 4096) mod 64 * 4096 +
            (c div 64) mod 64 * 64 + c mod 64"
        unfolding b by (rule 4)
      show "c div 262144 * 262144 + (c div 4096) mod 64 * 4096 +
            (c div 64) mod 64 * 64 + c mod 64 < 0x110000"
        unfolding b by (rule assms(2))
    qed
    then show ?thesis by (simp only: u b append.simps)
  qed
qed

lemma utf8_char_octets:
  assumes "c < 0x110000"
  shows "list_all (\<lambda>b. b < 256) (utf8_char c)"
proof -
  have lead: "c div 262144 < 8" "c < 0x10000 \<Longrightarrow> c div 4096 < 16" "c < 0x800 \<Longrightarrow> c div 64 < 32"
    using assms by (simp_all add: div_less_iff_less_mult)
  have tail: "\<And>x::nat. 0x80 + x mod 64 < 256"
  proof -
    fix x :: nat
    have "x mod 64 < 64" by simp
    then show "0x80 + x mod 64 < 256" by linarith
  qed
  show ?thesis
  proof (cases "c < 0x80")
    case True then show ?thesis by (simp add: utf8_char_def)
  next
    case False
    note nb = this
    show ?thesis
    proof (cases "c < 0x800")
      case True
      with nb lead(3) tail show ?thesis by (simp add: utf8_char_def)
    next
      case False
      note nc = this
      show ?thesis
      proof (cases "c < 0x10000")
        case True
        with nb nc lead(2) tail show ?thesis by (simp add: utf8_char_def)
      next
        case False
        with nb nc lead(1) tail show ?thesis by (simp add: utf8_char_def)
      qed
    qed
  qed
qed

lemma unat_of_nat_octets:
  "list_all (\<lambda>b. b < 256) xs \<Longrightarrow> map unat (map of_nat xs :: bytes) = xs"
  by (induction xs) (simp_all add: unat_of_nat)

lemma first_surrogate_None: "first_surrogate s = None \<longleftrightarrow> list_all (\<lambda>c. \<not> is_surrogate c) s"
  by (induction s) auto

lemma utf8_decode_concat:
  "list_all (\<lambda>c. \<not> is_surrogate c) s \<Longrightarrow> pystr_ok s \<Longrightarrow>
   utf8_decode (concat (map utf8_char s)) = Some s"
proof (induction s)
  case Nil then show ?case by simp
next
  case (Cons c s)
  from Cons.prems have c: "\<not> is_surrogate c" "c < 0x110000"
    and s: "list_all (\<lambda>c. \<not> is_surrogate c) s" "pystr_ok s"
    by (simp_all add: pystr_ok_def)
  have "utf8_decode (utf8_char c @ concat (map utf8_char s)) =
        map_option ((#) c) (utf8_decode (concat (map utf8_char s)))"
    using c by (rule utf8_decode_char)
  also have "\<dots> = Some (c # s)" using Cons.IH[OF s] by simp
  finally show ?case by simp
qed

lemma concat_octets:
  "pystr_ok s \<Longrightarrow> list_all (\<lambda>b. b < 256) (concat (map utf8_char s))"
  unfolding pystr_ok_def
proof (induction s)
  case Nil then show ?case by simp
next
  case (Cons c s)
  then show ?case using utf8_char_octets[of c] by simp
qed

lemma decode_encode:
  assumes "pystr_ok s" "str_encode s = Inr b"
  shows "bytes_decode b = Inr s"
proof -
  from assms(2) have ns: "first_surrogate s = None" and b: "b = map of_nat (concat (map utf8_char s))"
    by (auto simp: str_encode_def split: option.splits)
  have "map unat b = concat (map utf8_char s)"
    unfolding b using concat_octets[OF assms(1)] by (rule unat_of_nat_octets)
  then show ?thesis
    using utf8_decode_concat[OF _ assms(1)] ns
    by (simp add: bytes_decode_def first_surrogate_None)
qed

lemma utf8_decode_ascii: "list_all (\<lambda>x. x < 0x80) xs \<Longrightarrow> utf8_decode xs = Some xs"
  by (induction xs) simp_all

lemma ascii_decode: "is_ascii b \<Longrightarrow> bytes_decode b = Inr (map unat b)"
proof -
  assume "is_ascii b"
  then have "list_all (\<lambda>x. x < 0x80) (map unat b)"
    by (simp add: is_ascii_def list_all_iff word_less_nat_alt)
  then show ?thesis by (simp add: bytes_decode_def utf8_decode_ascii)
qed

lemma ascii_encode: "is_ascii b \<Longrightarrow> str_encode (map unat b) = Inr b"
  unfolding is_ascii_def str_encode_def
  by (induction b) (auto simp: word_less_nat_alt is_surrogate_def utf8_char_def split: option.splits)


section \<open>Key initialisation\<close>

lemma get_fernet_cached: "fernet_instance st = Some f \<Longrightarrow> get_fernet L st = (Inr f, st)"
  by (simp add: get_fernet_def)

lemma get_fernet_unset:
  "fernet_instance st = None \<Longrightarrow> environ st = None \<Longrightarrow>
   get_fernet L st = (Inl MissingMasterKey, log Getenv st)"
  by (simp add: get_fernet_def)

lemma get_fernet_empty:
  "fernet_instance st = None \<Longrightarrow> environ st = Some [] \<Longrightarrow>
   get_fernet L st = (Inl MissingMasterKey, log Getenv st)"
  by (simp add: get_fernet_def)

lemma get_fernet_rejected:
  "fernet_instance st = None \<Longrightarrow> environ st = Some k \<Longrightarrow> k \<noteq> [] \<Longrightarrow>
   str_encode k = Inr kb \<Longrightarrow> Fernet L kb = Inl e \<Longrightarrow>
   get_fernet L st = (Inl (InvalidMasterKey (key_error_str e)), log (FernetNew kb) (log Getenv st))"
  by (simp add: get_fernet_def)

lemma get_fernet_unencodable:
  "fernet_instance st = None \<Longrightarrow> environ st = Some k \<Longrightarrow> k \<noteq> [] \<Longrightarrow>
   str_encode k = Inl (i, j) \<Longrightarrow>
   get_fernet L st = (Inl (InvalidMasterKey (UnicodeEncodeError_str k i j)), log Getenv st)"
  by (simp add: get_fernet_def)

lemma get_fernet_accepted:
  "fernet_instance st = None \<Longrightarrow> environ st = Some k \<Longrightarrow> k \<noteq> [] \<Longrightarrow>
   str_encode k = Inr kb \<Longrightarrow> Fernet L kb = Inr f \<Longrightarrow>
   get_fernet L st = (Inr f, (log (FernetNew kb) (log Getenv st))\<lparr>fernet_instance := Some f\<rparr>)"
  by (simp add: get_fernet_def)

lemma get_fernet_failure_keeps_cache_unset:
  "get_fernet L st = (Inl e, st1) \<Longrightarrow> fernet_instance st1 = None \<and> environ st1 = environ st"
  by (auto simp: get_fernet_def log_def Let_def split: option.splits if_splits sum.splits prod.splits)

lemma get_fernet_success_caches:
  "get_fernet L st = (Inr f, st1) \<Longrightarrow> fernet_instance st1 = Some f \<and> environ st1 = environ st"
  by (auto simp: get_fernet_def log_def Let_def split: option.splits if_splits sum.splits prod.splits)

lemma get_fernet_ready:
  assumes "key_ready L st f"
  shows "\<exists>st1. get_fernet L st = (Inr f, st1) \<and> fernet_instance st1 = Some f"
  using assms
  by (auto simp: key_ready_def get_fernet_def log_def Let_def split: option.splits sum.splits)

section \<open>One instance per process: the invariant\<close>

lemma constructions_append [simp]:
  "constructions L (xs @ ys) = constructions L xs + constructions L ys"
  by (simp add: constructions_def)

lemma constructions_simps [simp]:
  "constructions L [] = 0"
  "constructions L [Getenv] = 0"
  "constructions L [FernetEncrypt f b] = 0"
  "constructions L [FernetDecrypt f b] = 0"
  "Fernet L k = Inl e \<Longrightarrow> constructions L [FernetNew k] = 0"
  "Fernet L k = Inr g \<Longrightarrow> constructions L [FernetNew k] = 1"
  by (simp_all add: constructions_def)











section \<open>Which failures come from key initialisation\<close>

lemma key_failure_simps [simp]:
  "\<not> key_failure (Inl TamperedOrInvalidToken)"
  "\<not> key_failure (Inl InvalidInputKind_encrypt)"
  "\<not> key_failure (Inl InvalidInputKind_decrypt)"
  "\<not> key_failure (Inl (UnicodeEncodeError s i j))"
  "\<not> key_failure (bytes_decode b)"
  by (simp_all add: TamperedOrInvalidToken_def MissingMasterKey_def invalid_key_prefix_def
      InvalidInputKind_encrypt_def InvalidInputKind_decrypt_def bytes_decode_def
      split: option.splits)

lemma encrypt_key_failure:
  assumes "key_failure (fst (encrypt L rnd v st))"
  shows "fernet_instance (snd (encrypt L rnd v st)) = None"
proof (cases "get_fernet L st")
  case (Pair g st1)
  show ?thesis
  proof (cases g)
    case (Inl e)
    with Pair get_fernet_failure_keeps_cache_unset[of L st e st1] assms show ?thesis
      by (auto simp: encrypt_def split: if_splits)
  next
    case (Inr f)
    with Pair assms show ?thesis
      by (auto simp: encrypt_def Let_def split: if_splits sum.splits prod.splits)
  qed
qed

lemma decrypt_key_failure:
  assumes "key_failure (fst (decrypt L v st))"
  shows "fernet_instance (snd (decrypt L v st)) = None"
proof (cases "get_fernet L st")
  case (Pair g st1)
  show ?thesis
  proof (cases g)
    case (Inl e)
    with Pair get_fernet_failure_keeps_cache_unset[of L st e st1] assms show ?thesis
      by (auto simp: decrypt_def split: if_splits)
  next
    case (Inr f)
    with Pair assms show ?thesis
      by (auto simp: decrypt_def Let_def split: if_splits sum.splits prod.splits option.splits)
  qed
qed

section \<open>One changed character in an ASCII text\<close>













section \<open>The small instance, evaluated\<close>

lemma str_encode_ascii: "list_all (\<lambda>c. c < 0x80) s \<Longrightarrow> str_encode s = Inr (map of_nat s)"
proof -
  assume a: "list_all (\<lambda>c. c < 0x80) s"
  then have "first_surrogate s = None"
    by (induction s) (simp_all add: is_surrogate_def)
  moreover from a have "concat (map utf8_char s) = s"
    by (induction s) (simp_all add: utf8_char_def)
  ultimately show ?thesis by (simp add: str_encode_def)
qed

lemma test_key_encode: "str_encode test_key = Inr test_key_bytes"
proof -
  have "list_all (\<lambda>c. c < 0x80) test_key" by (simp add: test_key_def list_all_iff)
  then have "str_encode test_key = Inr (map of_nat test_key)" by (rule str_encode_ascii)
  then show ?thesis by (simp add: test_key_def test_key_bytes_def)
qed

lemma test_key_nonempty: "test_key \<noteq> []"
  by (simp add: test_key_def)

lemma test_key_accepted: "Fernet toy_lib test_key_bytes = Inr 40"
  by (simp add: toy_lib_def toy_new_def test_key_bytes_def sum_list_replicate)

lemma hi_encode: "str_encode [0x68, 0x69] = Inr [0x68, 0x69]"
  by (simp add: str_encode_def is_surrogate_def utf8_char_def)

lemma hi_token: "fernet_encrypt toy_lib 40 [7] [0x68, 0x69] = [65, 72, 71, 73, 71, 74, 65, 65]"
  by (simp add: toy_lib_def toy_encrypt_def letters_def)

lemma hi_token_ascii: "is_ascii [65, 72, 71, 73, 71, 74, 65, 65]"
  by (simp add: is_ascii_def)

lemma hi_token_accepted:
  "fernet_decrypt toy_lib 40 [65, 72, 71, 73, 71, 74, 65, 65] = Some [0x68, 0x69]"
  by (simp add: toy_lib_def toy_decrypt_def is_letter_def)

lemma hi_token_rejected:
  "fernet_decrypt toy_lib 40 [65, 72, 71, 73, 71, 74, 65, 66] = None"
  by (simp add: toy_lib_def toy_decrypt_def is_letter_def)

lemma token_encode:
  "str_encode [65, 72, 71, 73, 71, 74, 65, 65] = Inr [65, 72, 71, 73, 71, 74, 65, 65]"
  "str_encode [65, 72, 71, 73, 71, 74, 65, 66] = Inr [65, 72, 71, 73, 71, 74, 65, 66]"
  by (simp_all add: str_encode_def is_surrogate_def utf8_char_def)

lemma hi_decode: "bytes_decode [0x68, 0x69] = Inr [0x68, 0x69]"
  by (simp add: bytes_decode_def)

lemma token_decode:
  "bytes_decode [65, 72, 71, 73, 71, 74, 65, 65] = Inr [65, 72, 71, 73, 71, 74, 65, 65]"
  by (simp add: bytes_decode_def)

lemma first_encrypt:
  "encrypt toy_lib [7] (PyStr [0x68, 0x69]) (initial_state (Some test_key)) =
     (Inr [65, 72, 71, 73, 71, 74, 65, 65], keyed_state)"
  by (simp add: encrypt_def get_fernet_def initial_state_def log_def test_key_encode
      test_key_nonempty test_key_accepted hi_encode hi_token token_decode keyed_state_def)


lemma surrogate_encode:
  "str_encode [0xD800] = Inl (0, 1)"
  "str_encode [0xD800, 72, 71, 73, 71, 74, 65, 65] = Inl (0, 1)"
  by (simp_all add: str_encode_def is_surrogate_def)

lemma short_key_encode: "str_encode [0x61, 0x62] = Inr [0x61, 0x62]"
  by (simp add: str_encode_def is_surrogate_def utf8_char_def)

lemma short_key_rejected:
  "Fernet toy_lib [0x61, 0x62]
     = Inl (KeyValueError ''Fernet key must be 32 url-safe base64-encoded bytes.'')"
  by (simp add: toy_lib_def toy_new_def)

lemma get_fernet_first:
  "get_fernet toy_lib (initial_state (Some test_key)) =
     (Inr 40, \<lparr>environ = Some test_key, fernet_instance = Some 40,
               trace = [Getenv, FernetNew test_key_bytes]\<rparr>)"
  by (simp add: get_fernet_def initial_state_def log_def test_key_encode test_key_nonempty
      test_key_accepted)

lemma get_fernet_keyed: "get_fernet toy_lib (keyed_state\<lparr>environ := e\<rparr>) = (Inr 40, keyed_state\<lparr>environ := e\<rparr>)"
  by (simp add: get_fernet_def keyed_state_def)

lemma get_fernet_keyed': "get_fernet toy_lib keyed_state = (Inr 40, keyed_state)"
  by (simp add: get_fernet_def keyed_state_def)








section \<open>The claims\<close>

subsection \<open>C1: round trip\<close>

text \<open>
  C1, as amended. Let the master key be usable (an instance is cached, or the environment
  holds a non-empty key that the constructor accepts), and let \<open>s\<close> be a text that
  \<^verbatim>\<open>.encode()\<close> accepts, that is, one without surrogate code points. If the library
  returns an ASCII token for the bytes of \<open>s\<close> and decrypts that token to the same bytes,
  then \<^verbatim>\<open>encrypt\<close> returns a token and \<^verbatim>\<open>decrypt\<close> of it returns exactly \<open>s\<close>.
\<close>

theorem encrypt_decrypt_roundtrip:
  assumes s: "pystr_ok s" "str_encode s = Inr b"
    and key: "key_ready L st f"
    and tok: "is_ascii (fernet_encrypt L f rnd b)"
    and lib: "fernet_decrypt L f (fernet_encrypt L f rnd b) = Some b"
  shows "\<exists>tok st1 st2. encrypt L rnd (PyStr s) st = (Inr tok, st1) \<and>
                        decrypt L (PyStr tok) st1 = (Inr s, st2)"
proof -
  from get_fernet_ready[OF key] obtain st0 where
    g: "get_fernet L st = (Inr f, st0)" and c: "fernet_instance st0 = Some f" by blast
  let ?t = "fernet_encrypt L f rnd b"
  let ?st1 = "log (FernetEncrypt f b) st0"
  have e: "encrypt L rnd (PyStr s) st = (Inr (map unat ?t), ?st1)"
    using g s(2) ascii_decode[OF tok] by (simp add: encrypt_def)
  have c1: "fernet_instance ?st1 = Some f" using c by (simp add: log_def)
  have "decrypt L (PyStr (map unat ?t)) ?st1 = (Inr s, log (FernetDecrypt f ?t) ?st1)"
    using get_fernet_cached[OF c1, of L] ascii_encode[OF tok] lib decode_encode[OF s]
    by (simp add: decrypt_def)
  with e show ?thesis by blast
qed

theorem encrypt_decrypt_roundtrip_witness:
  "pystr_ok [0x68, 0x69] \<and> str_encode [0x68, 0x69] = Inr [0x68, 0x69] \<and>
   key_ready toy_lib (initial_state (Some test_key)) 40 \<and>
   is_ascii (fernet_encrypt toy_lib 40 [7] [0x68, 0x69]) \<and>
   fernet_decrypt toy_lib 40 (fernet_encrypt toy_lib 40 [7] [0x68, 0x69]) = Some [0x68, 0x69] \<and>
   (\<exists>tok st1 st2.
      encrypt toy_lib [7] (PyStr [0x68, 0x69]) (initial_state (Some test_key)) = (Inr tok, st1) \<and>
      decrypt toy_lib (PyStr tok) st1 = (Inr [0x68, 0x69], st2))"
proof -
  have h1: "pystr_ok [0x68, 0x69]" by (simp add: pystr_ok_def)
  have h3: "key_ready toy_lib (initial_state (Some test_key)) 40"
    by (simp add: key_ready_def initial_state_def test_key_nonempty test_key_encode test_key_accepted)
  have h4: "is_ascii (fernet_encrypt toy_lib 40 [7] [0x68, 0x69])"
    by (simp only: hi_token hi_token_ascii)
  have h5: "fernet_decrypt toy_lib 40 (fernet_encrypt toy_lib 40 [7] [0x68, 0x69]) = Some [0x68, 0x69]"
    by (simp only: hi_token hi_token_accepted)
  from encrypt_decrypt_roundtrip [OF h1 hi_encode h3 h4 h5] h1 hi_encode h3 h4 h5
  show ?thesis by blast
qed

text \<open>
  C1 as stated, for every text, fails: for the one-character text \<^verbatim>\<open>"\\ud800"\<close> and a
  usable key, \<^verbatim>\<open>data.encode()\<close> raises \<^verbatim>\<open>UnicodeEncodeError\<close> and no token is
  produced.
\<close>

theorem surrogate_text_counterexample:
  "pystr_ok [0xD800] \<and>
   key_ready toy_lib (initial_state (Some test_key)) 40 \<and>
   fst (encrypt toy_lib [7] (PyStr [0xD800]) (initial_state (Some test_key)))
     = Inl (UnicodeEncodeError [0xD800] 0 1)"
proof -
  have "key_ready toy_lib (initial_state (Some test_key)) 40"
    by (simp add: key_ready_def initial_state_def test_key_nonempty test_key_encode test_key_accepted)
  moreover have "fst (encrypt toy_lib [7] (PyStr [0xD800]) (initial_state (Some test_key)))
     = Inl (UnicodeEncodeError [0xD800] 0 1)"
    by (simp add: encrypt_def get_fernet_first surrogate_encode)
  ultimately show ?thesis by (simp add: pystr_ok_def)
qed

subsection \<open>C2: tampered tokens\<close>




subsection \<open>C3: missing master key\<close>

text \<open>
  C3, as amended. If the variable is unset and no instance is cached, then for every
  text \<^verbatim>\<open>encrypt\<close> and \<^verbatim>\<open>decrypt\<close> fail with the \<^verbatim>\<open>ValueError\<close> of a missing key,
  and the only call made is the read of the environment: the library is not called.
\<close>

theorem missing_key_reported:
  assumes "fernet_instance st = None" and "environ st = None"
  shows "encrypt L rnd (PyStr s) st = (Inl MissingMasterKey, log Getenv st) \<and>
         decrypt L (PyStr t) st = (Inl MissingMasterKey, log Getenv st)"
  using assms by (simp add: encrypt_def decrypt_def get_fernet_unset)

theorem missing_key_reported_witness:
  "fernet_instance (initial_state None :: bytes state) = None \<and>
   environ (initial_state None :: bytes state) = None \<and>
   encrypt toy_lib [7] (PyStr [0x68, 0x69]) (initial_state None)
     = (Inl MissingMasterKey, \<lparr>environ = None, fernet_instance = None, trace = [Getenv]\<rparr>) \<and>
   decrypt toy_lib (PyStr [0x67]) (initial_state None)
     = (Inl MissingMasterKey, \<lparr>environ = None, fernet_instance = None, trace = [Getenv]\<rparr>)"
  using missing_key_reported [of "initial_state None" toy_lib "[7]" "[0x68, 0x69]" "[0x67]"]
  by (simp add: initial_state_def log_def)

text \<open>
  C3 as stated, without the condition on the cache, fails: after one successful
  \<^verbatim>\<open>encrypt\<close> the variable is removed, and both functions still succeed with the
  cached instance.
\<close>

theorem cached_instance_counterexample:
  "run toy_lib [Encrypt [7] (PyStr [0x68, 0x69]), Setenv None] (initial_state (Some test_key))
     = keyed_state\<lparr>environ := None\<rparr> \<and>
   environ (keyed_state\<lparr>environ := None\<rparr>) = None \<and>
   fst (encrypt toy_lib [7] (PyStr [0x68, 0x69]) (keyed_state\<lparr>environ := None\<rparr>))
     = Inr [65, 72, 71, 73, 71, 74, 65, 65] \<and>
   fst (decrypt toy_lib (PyStr [65, 72, 71, 73, 71, 74, 65, 65]) (keyed_state\<lparr>environ := None\<rparr>))
     = Inr [0x68, 0x69]"
proof -
  have "run toy_lib [Encrypt [7] (PyStr [0x68, 0x69]), Setenv None] (initial_state (Some test_key))
     = keyed_state\<lparr>environ := None\<rparr>"
    by (simp add: first_encrypt)
  moreover have "fst (encrypt toy_lib [7] (PyStr [0x68, 0x69]) (keyed_state\<lparr>environ := None\<rparr>))
     = Inr [65, 72, 71, 73, 71, 74, 65, 65]"
    by (simp add: encrypt_def get_fernet_keyed hi_encode hi_token token_decode)
  moreover have "fst (decrypt toy_lib (PyStr [65, 72, 71, 73, 71, 74, 65, 65]) (keyed_state\<lparr>environ := None\<rparr>))
     = Inr [0x68, 0x69]"
    by (simp add: decrypt_def get_fernet_keyed token_encode hi_token_accepted hi_decode)
  ultimately show ?thesis by simp
qed

subsection \<open>C4: error kinds\<close>

text \<open>
  C4, as amended. The errors of a tampered token, of a missing key and of an invalid key
  are all raised as \<^verbatim>\<open>ValueError\<close>; they differ pairwise in their message, and only
  there. The input-kind errors are \<^verbatim>\<open>TypeError\<close>.
\<close>

theorem error_kinds_by_message_only:
  "class_of TamperedOrInvalidToken = ValueError_cls \<and>
   class_of MissingMasterKey = ValueError_cls \<and>
   class_of (InvalidMasterKey d) = ValueError_cls \<and>
   class_of InvalidInputKind_encrypt = TypeError_cls \<and>
   class_of InvalidInputKind_decrypt = TypeError_cls \<and>
   TamperedOrInvalidToken \<noteq> MissingMasterKey \<and>
   TamperedOrInvalidToken \<noteq> InvalidMasterKey d \<and>
   MissingMasterKey \<noteq> InvalidMasterKey d"
  by (simp add: TamperedOrInvalidToken_def MissingMasterKey_def InvalidMasterKey_def
      InvalidInputKind_encrypt_def InvalidInputKind_decrypt_def)

text \<open>
  C4 as stated fails: the three errors, as raised on concrete inputs, have the same
  class.
\<close>

theorem same_error_kind_counterexample:
  "fst (decrypt toy_lib (PyStr [65, 72, 71, 73, 71, 74, 65, 66]) keyed_state)
     = Inl TamperedOrInvalidToken \<and>
   fst (encrypt toy_lib [7] (PyStr [0x68, 0x69]) (initial_state None)) = Inl MissingMasterKey \<and>
   fst (encrypt toy_lib [7] (PyStr [0x68, 0x69]) (initial_state (Some [0x61, 0x62])))
     = Inl (InvalidMasterKey ''Fernet key must be 32 url-safe base64-encoded bytes.'') \<and>
   class_of TamperedOrInvalidToken = class_of MissingMasterKey \<and>
   class_of TamperedOrInvalidToken
     = class_of (InvalidMasterKey ''Fernet key must be 32 url-safe base64-encoded bytes.'')"
proof -
  have "fst (decrypt toy_lib (PyStr [65, 72, 71, 73, 71, 74, 65, 66]) keyed_state)
     = Inl TamperedOrInvalidToken"
    by (simp add: decrypt_def get_fernet_keyed' token_encode hi_token_rejected)
  moreover have "fst (encrypt toy_lib [7] (PyStr [0x68, 0x69]) (initial_state None))
     = Inl MissingMasterKey"
    by (simp add: encrypt_def get_fernet_def initial_state_def)
  moreover have "fst (encrypt toy_lib [7] (PyStr [0x68, 0x69]) (initial_state (Some [0x61, 0x62])))
     = Inl (InvalidMasterKey ''Fernet key must be 32 url-safe base64-encoded bytes.'')"
    by (simp add: encrypt_def get_fernet_def initial_state_def short_key_encode short_key_rejected)
  ultimately show ?thesis
    by (simp add: TamperedOrInvalidToken_def MissingMasterKey_def InvalidMasterKey_def)
qed

subsection \<open>C6: invalid master key\<close>

text \<open>
  C6, as amended. Let no instance be cached and the variable hold a non-empty key. If
  the constructor rejects the bytes of the key, \<^verbatim>\<open>encrypt\<close> and \<^verbatim>\<open>decrypt\<close> of any
  text fail with a \<^verbatim>\<open>ValueError\<close> whose message is the fixed sentence naming the
  expected format followed by the text of the constructor's error; if the key cannot be
  encoded, the message is the same sentence followed by the text of the
  \<^verbatim>\<open>UnicodeEncodeError\<close>. The module puts nothing else into the message.
\<close>

theorem invalid_key_reported:
  assumes "fernet_instance st = None" and "environ st = Some k" and "k \<noteq> []"
  shows "(\<forall>kb e. str_encode k = Inr kb \<and> Fernet L kb = Inl e \<longrightarrow>
            encrypt L rnd (PyStr s) st =
              (Inl (ValueError (''Invalid APP_MASTER_KEY. It must be a 32-byte URL-safe base64-encoded key. Details: ''
                                @ key_error_str e)),
               log (FernetNew kb) (log Getenv st)) \<and>
            decrypt L (PyStr t) st =
              (Inl (ValueError (''Invalid APP_MASTER_KEY. It must be a 32-byte URL-safe base64-encoded key. Details: ''
                                @ key_error_str e)),
               log (FernetNew kb) (log Getenv st))) \<and>
         (\<forall>i j. str_encode k = Inl (i, j) \<longrightarrow>
            encrypt L rnd (PyStr s) st =
              (Inl (ValueError (''Invalid APP_MASTER_KEY. It must be a 32-byte URL-safe base64-encoded key. Details: ''
                                @ UnicodeEncodeError_str k i j)),
               log Getenv st) \<and>
            decrypt L (PyStr t) st =
              (Inl (ValueError (''Invalid APP_MASTER_KEY. It must be a 32-byte URL-safe base64-encoded key. Details: ''
                                @ UnicodeEncodeError_str k i j)),
               log Getenv st))"
proof (intro conjI allI impI)
  fix kb e
  assume "str_encode k = Inr kb \<and> Fernet L kb = Inl e"
  then have g: "get_fernet L st =
      (Inl (InvalidMasterKey (key_error_str e)), log (FernetNew kb) (log Getenv st))"
    using assms by (simp add: get_fernet_rejected)
  show "encrypt L rnd (PyStr s) st =
      (Inl (ValueError (''Invalid APP_MASTER_KEY. It must be a 32-byte URL-safe base64-encoded key. Details: ''
                        @ key_error_str e)),
       log (FernetNew kb) (log Getenv st))"
    using g by (simp add: encrypt_def InvalidMasterKey_def)
  show "decrypt L (PyStr t) st =
      (Inl (ValueError (''Invalid APP_MASTER_KEY. It must be a 32-byte URL-safe base64-encoded key. Details: ''
                        @ key_error_str e)),
       log (FernetNew kb) (log Getenv st))"
    using g by (simp add: decrypt_def InvalidMasterKey_def)
next
  fix i j
  assume "str_encode k = Inl (i, j)"
  then have g: "get_fernet L st =
      (Inl (InvalidMasterKey (UnicodeEncodeError_str k i j)), log Getenv st)"
    using assms by (simp add: get_fernet_unencodable)
  show "encrypt L rnd (PyStr s) st =
      (Inl (ValueError (''Invalid APP_MASTER_KEY. It must be a 32-byte URL-safe base64-encoded key. Details: ''
                        @ UnicodeEncodeError_str k i j)),
       log Getenv st)"
    using g by (simp add: encrypt_def InvalidMasterKey_def)
  show "decrypt L (PyStr t) st =
      (Inl (ValueError (''Invalid APP_MASTER_KEY. It must be a 32-byte URL-safe base64-encoded key. Details: ''
                        @ UnicodeEncodeError_str k i j)),
       log Getenv st)"
    using g by (simp add: decrypt_def InvalidMasterKey_def)
qed

theorem invalid_key_reported_witness:
  "fernet_instance (initial_state (Some [0x61, 0x62]) :: 8 word state) = None \<and>
   environ (initial_state (Some [0x61, 0x62]) :: 8 word state) = Some [0x61, 0x62] \<and>
   [0x61, 0x62] \<noteq> ([] :: pystr) \<and>
   str_encode [0x61, 0x62] = Inr [0x61, 0x62] \<and>
   Fernet toy_lib [0x61, 0x62]
     = Inl (KeyValueError ''Fernet key must be 32 url-safe base64-encoded bytes.'') \<and>
   fst (encrypt toy_lib [7] (PyStr [0x68, 0x69]) (initial_state (Some [0x61, 0x62]))) =
     Inl (ValueError ''Invalid APP_MASTER_KEY. It must be a 32-byte URL-safe base64-encoded key. Details: Fernet key must be 32 url-safe base64-encoded bytes.'') \<and>
   fst (decrypt toy_lib (PyStr [0x67]) (initial_state (Some [0x61, 0x62]))) =
     Inl (ValueError ''Invalid APP_MASTER_KEY. It must be a 32-byte URL-safe base64-encoded key. Details: Fernet key must be 32 url-safe base64-encoded bytes.'')"
proof -
  have h1: "fernet_instance (initial_state (Some [0x61, 0x62]) :: 8 word state) = None"
    and h2: "environ (initial_state (Some [0x61, 0x62]) :: 8 word state) = Some [0x61, 0x62]"
    and h3: "[0x61, 0x62] \<noteq> ([] :: pystr)"
    by (simp_all add: initial_state_def)
  from invalid_key_reported [OF h1 h2 h3, of toy_lib "[7]" "[0x68, 0x69]" "[0x67]"]
       short_key_encode short_key_rejected
  have "encrypt toy_lib [7] (PyStr [0x68, 0x69]) (initial_state (Some [0x61, 0x62])) =
          (Inl (ValueError (''Invalid APP_MASTER_KEY. It must be a 32-byte URL-safe base64-encoded key. Details: ''
              @ key_error_str (KeyValueError ''Fernet key must be 32 url-safe base64-encoded bytes.''))),
           log (FernetNew [0x61, 0x62]) (log Getenv (initial_state (Some [0x61, 0x62])))) \<and>
        decrypt toy_lib (PyStr [0x67]) (initial_state (Some [0x61, 0x62])) =
          (Inl (ValueError (''Invalid APP_MASTER_KEY. It must be a 32-byte URL-safe base64-encoded key. Details: ''
              @ key_error_str (KeyValueError ''Fernet key must be 32 url-safe base64-encoded bytes.''))),
           log (FernetNew [0x61, 0x62]) (log Getenv (initial_state (Some [0x61, 0x62]))))"
    by blast
  then show ?thesis using h1 h2 short_key_encode short_key_rejected by simp
qed

text \<open>
  C6 as stated fails for a variable that is set to the empty string: the value is
  present and is not a valid key, and the error is the one of a missing key.
\<close>

theorem empty_key_counterexample:
  "environ (initial_state (Some []) :: 8 word state) = Some [] \<and>
   str_encode [] = Inr [] \<and>
   Fernet toy_lib [] = Inl (KeyValueError ''Fernet key must be 32 url-safe base64-encoded bytes.'') \<and>
   fst (encrypt toy_lib [7] (PyStr [0x68, 0x69]) (initial_state (Some []))) =
     Inl (ValueError ''APP_MASTER_KEY environment variable not set. Cannot perform encryption/decryption.'') \<and>
   fst (decrypt toy_lib (PyStr [0x67]) (initial_state (Some []))) =
     Inl (ValueError ''APP_MASTER_KEY environment variable not set. Cannot perform encryption/decryption.'')"
proof -
  have "get_fernet toy_lib (initial_state (Some [])) =
          (Inl MissingMasterKey, log Getenv (initial_state (Some [])))"
    by (simp add: get_fernet_empty initial_state_def)
  then have "fst (encrypt toy_lib [7] (PyStr [0x68, 0x69]) (initial_state (Some []))) = Inl MissingMasterKey"
    and "fst (decrypt toy_lib (PyStr [0x67]) (initial_state (Some []))) = Inl MissingMasterKey"
    by (simp_all add: encrypt_def decrypt_def)
  then show ?thesis
    by (simp add: MissingMasterKey_def initial_state_def str_encode_def toy_lib_def toy_new_def)
qed

subsection \<open>C7: inputs that are not text\<close>

text \<open>
  C7. For every argument that is not a \<^verbatim>\<open>str\<close> (a number, bytes, \<^verbatim>\<open>None\<close>, an
  empty list or empty bytes), \<^verbatim>\<open>encrypt\<close> and \<^verbatim>\<open>decrypt\<close> raise their
  \<^verbatim>\<open>TypeError\<close> and leave the state as it was: the environment is not read and the
  library is not called.
\<close>

theorem non_text_input_rejected:
  "\<not> isinstance_str v \<Longrightarrow>
   encrypt L rnd v st = (Inl InvalidInputKind_encrypt, st) \<and>
   decrypt L v st = (Inl InvalidInputKind_decrypt, st)"
  by (simp add: encrypt_def decrypt_def)

theorem non_text_input_rejected_witness:
  "\<not> isinstance_str (PyInt 12345) \<and>
   encrypt toy_lib [] (PyInt 12345) (initial_state (Some test_key))
     = (Inl (TypeError ''Data to encrypt must be a string.''), initial_state (Some test_key)) \<and>
   decrypt toy_lib (PyInt 12345) (initial_state (Some test_key))
     = (Inl (TypeError ''Data to decrypt must be a string.''), initial_state (Some test_key))"
  using non_text_input_rejected [of "PyInt 12345" toy_lib "[]" "initial_state (Some test_key)"]
  by (simp add: InvalidInputKind_encrypt_def InvalidInputKind_decrypt_def)

subsection \<open>C8: a single instance\<close>



subsection \<open>C9: the type check comes first\<close>

text \<open>
  C9. For every argument that is not a \<^verbatim>\<open>str\<close>, whatever the variable holds (unset,
  empty, malformed or valid) and whatever is cached, both functions fail with their
  input-kind error, never with a key error, and the log and the cache are as before: the
  environment is not read.
\<close>

theorem type_check_precedes_key_initialisation:
  "\<not> isinstance_str v \<Longrightarrow>
   fst (encrypt L rnd v (st\<lparr>environ := e\<rparr>)) = Inl InvalidInputKind_encrypt \<and>
   fst (decrypt L v (st\<lparr>environ := e\<rparr>)) = Inl InvalidInputKind_decrypt \<and>
   \<not> key_failure (fst (encrypt L rnd v (st\<lparr>environ := e\<rparr>))) \<and>
   \<not> key_failure (fst (decrypt L v (st\<lparr>environ := e\<rparr>))) \<and>
   trace (snd (encrypt L rnd v (st\<lparr>environ := e\<rparr>))) = trace st \<and>
   trace (snd (decrypt L v (st\<lparr>environ := e\<rparr>))) = trace st \<and>
   fernet_instance (snd (encrypt L rnd v (st\<lparr>environ := e\<rparr>))) = fernet_instance st \<and>
   fernet_instance (snd (decrypt L v (st\<lparr>environ := e\<rparr>))) = fernet_instance st"
  by (simp add: encrypt_def decrypt_def InvalidInputKind_encrypt_def InvalidInputKind_decrypt_def)

theorem type_check_precedes_key_initialisation_witness:
  "\<not> isinstance_str (PyBytes [0x61]) \<and>
   fst (encrypt toy_lib [7] (PyBytes [0x61]) (initial_state None)) = Inl InvalidInputKind_encrypt \<and>
   fst (decrypt toy_lib (PyBytes [0x61]) (initial_state None)) = Inl InvalidInputKind_decrypt \<and>
   fst (encrypt toy_lib [7] PyNone (initial_state (Some [0x61, 0x62]))) = Inl InvalidInputKind_encrypt \<and>
   trace (snd (encrypt toy_lib [7] PyNone (initial_state (Some [0x61, 0x62])))) = []"
proof -
  have a: "(initial_state None :: 8 word state) = (initial_state None)\<lparr>environ := None\<rparr>"
    and b: "(initial_state (Some [0x61, 0x62]) :: 8 word state)
            = (initial_state None)\<lparr>environ := Some [0x61, 0x62]\<rparr>"
    and t: "trace (initial_state None :: 8 word state) = []"
    by (simp_all add: initial_state_def)
  have n1: "\<not> isinstance_str (PyBytes [0x61])" and n2: "\<not> isinstance_str PyNone" by simp_all
  from type_check_precedes_key_initialisation
         [OF n1, where L = toy_lib and rnd = "[7]" and st = "initial_state None" and e = None]
       type_check_precedes_key_initialisation
         [OF n2, where L = toy_lib and rnd = "[7]" and st = "initial_state None"
            and e = "Some [0x61, 0x62]"]
  show ?thesis using n1 t by (simp only: a [symmetric] b [symmetric]) simp
qed

subsection \<open>C10: a failed initialisation is not cached\<close>

text \<open>
  C10. If \<^verbatim>\<open>encrypt\<close> or \<^verbatim>\<open>decrypt\<close> fails with a key error, no instance is cached
  afterwards. Once the variable is then set to a non-empty key that the constructor
  accepts, the next initialisation reads the environment, calls the constructor and
  caches the instance; \<^verbatim>\<open>encrypt\<close> of a text that encodes returns the library's token,
  and \<^verbatim>\<open>decrypt\<close> of a token the library accepts returns the decoded data.
\<close>

theorem failed_initialisation_not_cached:
  assumes r: "r = encrypt L rnd v st \<or> r = decrypt L v st"
    and fail: "key_failure (fst r)"
    and k: "k \<noteq> []" "str_encode k = Inr kb" "Fernet L kb = Inr f"
  shows "fernet_instance (snd r) = None \<and>
         get_fernet L ((snd r)\<lparr>environ := Some k\<rparr>) =
           (Inr f, (log (FernetNew kb) (log Getenv ((snd r)\<lparr>environ := Some k\<rparr>)))
                     \<lparr>fernet_instance := Some f\<rparr>) \<and>
         (\<forall>s b rnd'. str_encode s = Inr b \<and> is_ascii (fernet_encrypt L f rnd' b) \<longrightarrow>
            encrypt L rnd' (PyStr s) ((snd r)\<lparr>environ := Some k\<rparr>)
              = (Inr (map unat (fernet_encrypt L f rnd' b)),
                 log (FernetEncrypt f b)
                   ((log (FernetNew kb) (log Getenv ((snd r)\<lparr>environ := Some k\<rparr>)))
                      \<lparr>fernet_instance := Some f\<rparr>))) \<and>
         (\<forall>t b pb. str_encode t = Inr b \<and> fernet_decrypt L f b = Some pb \<longrightarrow>
            decrypt L (PyStr t) ((snd r)\<lparr>environ := Some k\<rparr>)
              = (bytes_decode pb,
                 log (FernetDecrypt f b)
                   ((log (FernetNew kb) (log Getenv ((snd r)\<lparr>environ := Some k\<rparr>)))
                      \<lparr>fernet_instance := Some f\<rparr>)))"
proof -
  have c: "fernet_instance (snd r) = None"
    using r fail by (auto dest: encrypt_key_failure decrypt_key_failure)
  let ?st = "(snd r)\<lparr>environ := Some k\<rparr>"
  let ?st' = "(log (FernetNew kb) (log Getenv ?st))\<lparr>fernet_instance := Some f\<rparr>"
  have g: "get_fernet L ?st = (Inr f, ?st')"
    using c k by (simp add: get_fernet_accepted)
  have e: "\<forall>s b rnd'. str_encode s = Inr b \<and> is_ascii (fernet_encrypt L f rnd' b) \<longrightarrow>
            encrypt L rnd' (PyStr s) ?st
              = (Inr (map unat (fernet_encrypt L f rnd' b)), log (FernetEncrypt f b) ?st')"
    using g by (simp add: encrypt_def ascii_decode)
  have d: "\<forall>t b pb. str_encode t = Inr b \<and> fernet_decrypt L f b = Some pb \<longrightarrow>
            decrypt L (PyStr t) ?st = (bytes_decode pb, log (FernetDecrypt f b) ?st')"
    using g by (simp add: decrypt_def)
  from c g e d show ?thesis by blast
qed

theorem failed_initialisation_not_cached_witness:
  "key_failure (fst (encrypt toy_lib [7] (PyStr [0x68, 0x69]) (initial_state None))) \<and>
   test_key \<noteq> [] \<and> str_encode test_key = Inr test_key_bytes \<and>
   Fernet toy_lib test_key_bytes = Inr 40 \<and>
   fernet_instance (snd (encrypt toy_lib [7] (PyStr [0x68, 0x69]) (initial_state None))) = None \<and>
   fst (encrypt toy_lib [7] (PyStr [0x68, 0x69])
          ((snd (encrypt toy_lib [7] (PyStr [0x68, 0x69]) (initial_state None)))
             \<lparr>environ := Some test_key\<rparr>))
     = Inr [65, 72, 71, 73, 71, 74, 65, 65]"
proof -
  have m: "encrypt toy_lib [7] (PyStr [0x68, 0x69]) (initial_state None)
            = (Inl MissingMasterKey, log Getenv (initial_state None))"
    by (simp add: encrypt_def get_fernet_unset initial_state_def)
  have f: "key_failure (fst (encrypt toy_lib [7] (PyStr [0x68, 0x69]) (initial_state None)))"
    by (simp add: m MissingMasterKey_def)
  have a: "is_ascii (fernet_encrypt toy_lib 40 [7] [0x68, 0x69])"
    by (simp only: hi_token hi_token_ascii)
  from failed_initialisation_not_cached
         [where r = "encrypt toy_lib [7] (PyStr [0x68, 0x69]) (initial_state None)"
            and L = toy_lib and rnd = "[7]" and v = "PyStr [0x68, 0x69]"
            and st = "initial_state None", OF _ f test_key_nonempty test_key_encode test_key_accepted]
  have n: "fernet_instance (snd (encrypt toy_lib [7] (PyStr [0x68, 0x69]) (initial_state None))) = None"
    and e: "\<forall>s b rnd'. str_encode s = Inr b \<and> is_ascii (fernet_encrypt toy_lib 40 rnd' b) \<longrightarrow>
            encrypt toy_lib rnd' (PyStr s)
                  ((snd (encrypt toy_lib [7] (PyStr [0x68, 0x69]) (initial_state None)))
                     \<lparr>environ := Some test_key\<rparr>)
              = (Inr (map unat (fernet_encrypt toy_lib 40 rnd' b)),
                 log (FernetEncrypt 40 b)
                   ((log (FernetNew test_key_bytes)
                      (log Getenv ((snd (encrypt toy_lib [7] (PyStr [0x68, 0x69]) (initial_state None)))
                         \<lparr>environ := Some test_key\<rparr>)))
                      \<lparr>fernet_instance := Some 40\<rparr>))"
    by blast+
  from e [rule_format, OF conjI [OF hi_encode a]]
  have "fst (encrypt toy_lib [7] (PyStr [0x68, 0x69])
          ((snd (encrypt toy_lib [7] (PyStr [0x68, 0x69]) (initial_state None)))
             \<lparr>environ := Some test_key\<rparr>))
     = Inr [65, 72, 71, 73, 71, 74, 65, 65]"
    by (simp add: hi_token)
  with n f test_key_nonempty test_key_encode test_key_accepted
  show ?thesis by blast
qed

end
